theory Spec2Isabelle
  imports Main
begin

section \<open>Data model of \<open>genmsg/gentools.py\<close>\<close>

text \<open>
  The module is Python 2 era code (it prefers \<open>cStringIO\<close>): a \<open>str\<close> is a byte
  string, so strings are \<open>char list\<close> and formatting with \<open>%s\<close> is concatenation.
  Functions keep their names without the leading underscore (\<open>_add_msgs_depends\<close> is
  \<open>add_msgs_depends\<close>, \<open>_compute_hash\<close> is \<open>compute_hash\<close>, \<open>_compute_hash_v1\<close> is
  \<open>compute_hash_v1\<close>).

  A \<open>Constant\<close> of a message carries its declared type, its name and the literal text
  of its value; \<open>compute_md5_text\<close> reads \<open>c.type\<close>, \<open>c.name\<close> and \<open>c.val_text\<close>.
\<close>

record Constant =
  const_type :: string
  const_name :: string
  val_text :: string

text \<open>
  \<open>MsgSpec\<close>: the attributes the module reads are \<open>types\<close>, \<open>names\<close>, \<open>constants\<close>
  and \<open>text\<close> (here \<open>msg_text\<close>). \<open>SrvSpec\<close>: \<open>request\<close>, \<open>response\<close> and \<open>text\<close>
  (here \<open>srv_text\<close>).
\<close>

record msgspec =
  types :: "string list"
  names :: "string list"
  constants :: "Constant list"
  msg_text :: string

record srvspec =
  request :: msgspec
  response :: msgspec
  srv_text :: string

text \<open>The exceptions that can leave the module, each with its message or key.\<close>

datatype error =
    TypeError string
  | NameError string
  | KeyError string
  | ValueError string
  | AttributeError string
  | IOError string
  | MsgSpecException string
  | Exception string

text \<open>
  A value that is neither a \<open>MsgSpec\<close> nor a \<open>SrvSpec\<close> is described by what the
  module can observe of it.

  \<^item> How it stands as the right operand of \<open>%\<close> (the error message of \<open>_compute_hash\<close>):
    a tuple is unpacked into the arguments of the format, any other object is the one
    argument. Each argument is given by what \<open>str()\<close> does on it: it returns a string
    or raises.
  \<^item> Its attribute \<open>text\<close>: missing; a string, or an object that exposes its bytes
    through the buffer interface, which \<open>update\<close> and \<open>write\<close> take like a string; or a
    value that \<open>update\<close> and \<open>write\<close> reject with the given exception (a \<open>TypeError\<close>
    for a number, a \<open>UnicodeEncodeError\<close> for a unicode string outside ASCII).
\<close>

datatype pyshape = Obj "error + string" | Tuple "(error + string) list"

datatype pyattr = NoAttr | StrAttr string | BadAttr error

record other_value =
  other_shape :: pyshape
  other_text :: pyattr

datatype spec = MsgSpec msgspec | SrvSpec srvspec | Other other_value

text \<open>
  The dictionary returned by \<open>get_dependencies\<close> and consumed by the other functions
  (their parameter \<open>get_deps_dict\<close>), one field per key. The key \<open>'files'\<close> is
  present only when file dependencies were computed.
\<close>

record deps_dict =
  dict_files :: "(string \<rightharpoonup> string) option"
  dict_deps :: "string list"
  dict_spec :: spec
  dict_package :: string
  dict_uniquedeps :: "string list"

subsection \<open>Collaborators\<close>

text \<open>
  The modules \<open>msgs\<close> and \<open>names\<close> and the MD5 function of \<open>hashlib\<close> are not part of
  this file; their operations are parameters of the model. \<open>'r\<close> is the state of the
  type registry (and whatever else the collaborators read). \<open>get_registered\<close> takes the
  optional default package as an \<open>option\<close>. \<open>md5\<close> maps the bytes fed to a digest to
  its hexadecimal form.
\<close>

record 'r externals =
  msgs_init :: "'r \<Rightarrow> 'r"
  base_msg_type :: "string \<Rightarrow> string"
  is_builtin :: "string \<Rightarrow> bool"
  is_registered :: "'r \<Rightarrow> string \<Rightarrow> bool"
  get_registered :: "'r \<Rightarrow> string \<Rightarrow> string option \<Rightarrow> error + msgspec"
  load_by_type :: "'r \<Rightarrow> string \<Rightarrow> string list \<Rightarrow> string \<Rightarrow> error + (string \<times> msgspec)"
  register :: "'r \<Rightarrow> string \<Rightarrow> msgspec \<Rightarrow> 'r"
  package_resource_name :: "string \<Rightarrow> error + (string \<times> string)"
  msg_file :: "string \<Rightarrow> string \<Rightarrow> string"
  md5 :: "string \<Rightarrow> string"

subsection \<open>Hash instances\<close>

text \<open>
  A hash instance is the digest function of its algorithm together with the bytes fed
  so far: \<open>update\<close> appends, \<open>hexdigest\<close> applies the function to everything fed.
  \<open>hashlib.md5()\<close> is the instance that has been fed nothing. The strings the module
  feeds are Python 2 byte strings, which \<open>update\<close> accepts as they are.
\<close>

record hash =
  digest_fn :: "string \<Rightarrow> string"
  fed :: string

definition hash_update :: "hash \<Rightarrow> string \<Rightarrow> hash" where
  "hash_update h s = h\<lparr>fed := fed h @ s\<rparr>"

definition hexdigest :: "hash \<Rightarrow> string" where
  "hexdigest h = digest_fn h (fed h)"

definition hashlib_md5 :: "'r externals \<Rightarrow> hash" where
  "hashlib_md5 X = \<lparr>digest_fn = md5 X, fed = []\<rparr>"

section \<open>Text assembly and the legacy fingerprint\<close>

text \<open>
  \<open>spec.text\<close> as \<open>_compute_hash_v1\<close> and \<open>compute_full_text\<close> use it: neither function
  tests the kind of \<open>spec\<close>; a value without the attribute raises on the lookup, and
  one whose \<open>text\<close> is not a string raises when it is written or hashed.
\<close>

definition spec_text :: "spec \<Rightarrow> error + string" where
  "spec_text s =
     (case s of
        MsgSpec m \<Rightarrow> Inr (msg_text m)
      | SrvSpec v \<Rightarrow> Inr (srv_text v)
      | Other v \<Rightarrow>
          (case other_text v of
             NoAttr \<Rightarrow> Inl (AttributeError ''text'')
           | StrAttr t \<Rightarrow> Inr t
           | BadAttr e \<Rightarrow> Inl e))"

definition sep :: string where
  "sep = replicate 80 (CHR ''='') @ ''\<newline>''"

text \<open>The loop of \<open>compute_full_text\<close> over \<open>uniquedeps\<close>; \<open>buff\<close> is the text written so far.\<close>

fun full_text_loop :: "'r externals \<Rightarrow> 'r \<Rightarrow> string list \<Rightarrow> string \<Rightarrow> error + string" where
  "full_text_loop X r [] buff = Inr buff"
| "full_text_loop X r (d # ds) buff =
     (case get_registered X r d None of
        Inl e \<Rightarrow> Inl e
      | Inr s \<Rightarrow>
          full_text_loop X r ds
            (buff @ sep @ (''MSG: '' @ d @ ''\<newline>'') @ msg_text s @ ''\<newline>''))"

definition compute_full_text :: "'r externals \<Rightarrow> 'r \<Rightarrow> deps_dict \<Rightarrow> error + string" where
  "compute_full_text X r get_deps_dict =
     (case spec_text (dict_spec get_deps_dict) of
        Inl e \<Rightarrow> Inl e
      | Inr t \<Rightarrow>
          (case full_text_loop X r (dict_uniquedeps get_deps_dict) (t @ ''\<newline>'') of
             Inl e \<Rightarrow> Inl e
           | Inr buff \<Rightarrow> Inr (butlast buff)))"

text \<open>The loop of \<open>_compute_hash_v1\<close> over \<open>uniquedeps\<close>.\<close>

fun hash_v1_loop :: "'r externals \<Rightarrow> 'r \<Rightarrow> string list \<Rightarrow> hash \<Rightarrow> error + hash" where
  "hash_v1_loop X r [] h = Inr h"
| "hash_v1_loop X r (d # ds) h =
     (case get_registered X r d None of
        Inl e \<Rightarrow> Inl e
      | Inr s \<Rightarrow> hash_v1_loop X r ds (hash_update h (msg_text s)))"

definition compute_hash_v1 :: "'r externals \<Rightarrow> 'r \<Rightarrow> deps_dict \<Rightarrow> hash \<Rightarrow> error + string" where
  "compute_hash_v1 X r get_deps_dict h =
     (case spec_text (dict_spec get_deps_dict) of
        Inl e \<Rightarrow> Inl e
      | Inr t \<Rightarrow>
          (case hash_v1_loop X r (dict_uniquedeps get_deps_dict) (hash_update h t) of
             Inl e \<Rightarrow> Inl e
           | Inr h' \<Rightarrow> Inr (hexdigest h')))"

definition compute_md5_v1 :: "'r externals \<Rightarrow> 'r \<Rightarrow> deps_dict \<Rightarrow> error + string" where
  "compute_md5_v1 X r get_deps_dict = compute_hash_v1 X r get_deps_dict (hashlib_md5 X)"

section \<open>Dependency resolution\<close>

text \<open>
  The names the top-level statements of the module bind: its imports, the constant
  \<open>_header_type_name\<close> and its functions. A name that is read but neither bound here
  nor a Python builtin raises \<open>NameError\<close> when the statement runs.
\<close>

definition module_globals :: "string list" where
  "module_globals =
     [''sys'', ''StringIO'', ''msgs'', ''MsgSpecException'', ''MsgSpec'', ''SrvSpec'',
      ''names'', ''_header_type_name'', ''_add_msgs_depends'', ''compute_md5_text'',
      ''_compute_hash'', ''_compute_hash_v1'', ''compute_md5_v1'', ''compute_md5'',
      ''compute_md5_v2'', ''compute_full_text'', ''get_dependencies'']"

definition load_global :: "string \<Rightarrow> error + unit" where
  "load_global n = (if n \<in> set module_globals then Inr () else Inl (NameError n))"

lemma log_unbound: "load_global ''log'' = Inl (NameError ''log'')"
  by (simp add: load_global_def module_globals_def)

lemma rosidl_unbound: "load_global ''rosidl'' = Inl (NameError ''rosidl'')"
  by (simp add: load_global_def module_globals_def)

text \<open>
  \<open>_add_msgs_depends(spec, deps, package_context, includepath)\<close>. All four parameters
  are required; \<open>includepath_arg\<close> is \<open>None\<close> for a call that passes three arguments,
  which Python rejects before the body runs. The list \<open>deps\<close> is updated in place: the
  model returns it. \<open>add_msgs_loop\<close> is the \<open>for\<close> loop over \<open>spec.types\<close>.

  The functions are total: the body reaches its loop only if the name \<open>log\<close> is bound,
  which it is not, so the call that the loop makes for a dependency returns at once,
  whatever the registry holds.
\<close>

function add_msgs_depends ::
    "'r externals \<Rightarrow> 'r \<Rightarrow> msgspec \<Rightarrow> string list \<Rightarrow> string \<Rightarrow> string list option
      \<Rightarrow> (error + string list) \<times> 'r"
  and add_msgs_loop ::
    "'r externals \<Rightarrow> 'r \<Rightarrow> string list \<Rightarrow> string list \<Rightarrow> string \<Rightarrow> string list
      \<Rightarrow> (error + string list) \<times> 'r"
where
  "add_msgs_depends X r spec deps package_context includepath_arg =
     (case includepath_arg of
        None \<Rightarrow>
          (Inl (TypeError ''_add_msgs_depends() takes exactly 4 arguments (3 given)''), r)
      | Some includepath \<Rightarrow>
          (case load_global ''log'' of
             Inl e \<Rightarrow> (Inl e, r)
           | Inr u \<Rightarrow> add_msgs_loop X r (types spec) deps package_context includepath))"
| "add_msgs_loop X r [] deps package_context includepath = (Inr deps, r)"
| "add_msgs_loop X r (t0 # ts) deps package_context includepath =
     (let t = base_msg_type X t0 in
      if is_builtin X t then add_msgs_loop X r ts deps package_context includepath
      else
        (case
           (if is_registered X r t then
              (case get_registered X r t None of
                 Inl e \<Rightarrow> (Inl e, r)
               | Inr depspec \<Rightarrow>
                   (Inr (depspec,
                      if CHR ''/'' \<in> set t then deps @ [t]
                      else deps @ [package_context @ ''/'' @ t]), r))
            else
              (case load_by_type X r t includepath package_context of
                 Inl e \<Rightarrow> (Inl e, r)
               | Inr (key, depspec) \<Rightarrow>
                   (case load_global ''rosidl'' of
                      Inl e \<Rightarrow> (Inl e, r)
                    | Inr u \<Rightarrow> (Inr (depspec, deps), register X r key depspec))))
         of
           (Inl e, r1) \<Rightarrow> (Inl e, r1)
         | (Inr (depspec, deps1), r1) \<Rightarrow>
             (case add_msgs_depends X r1 depspec deps1 package_context (Some includepath) of
                (Inl e, r2) \<Rightarrow> (Inl e, r2)
              | (Inr deps2, r2) \<Rightarrow>
                  add_msgs_loop X r2 ts deps2 package_context includepath)))"
  by pat_completeness auto

termination
  by (relation "measure (\<lambda>x. case x of Inl a \<Rightarrow> 0
                                     | Inr (X, r, ts, rest) \<Rightarrow> Suc (length ts))")
     (auto simp: log_unbound)

text \<open>
  The loop of \<open>get_dependencies\<close> that builds \<open>uniquedeps\<close>: an element of \<open>deps\<close> is
  appended unless it is already there.
\<close>

fun unique_loop :: "string list \<Rightarrow> string list \<Rightarrow> string list" where
  "unique_loop [] uniquedeps = uniquedeps"
| "unique_loop (d # ds) uniquedeps =
     unique_loop ds (if d \<notin> set uniquedeps then uniquedeps @ [d] else uniquedeps)"

text \<open>
  The loop that fills \<open>files\<close>. The source iterates \<open>set(deps)\<close>, whose order is not
  fixed; the model takes the elements in the order of \<open>remdups deps\<close>. The resulting
  dictionary does not depend on the order.
\<close>

fun files_loop ::
    "'r externals \<Rightarrow> string \<Rightarrow> string list \<Rightarrow> (string \<rightharpoonup> string) \<Rightarrow> error + (string \<rightharpoonup> string)"
where
  "files_loop X package [] files = Inr files"
| "files_loop X package (d # ds) files =
     (case package_resource_name X d of
        Inl e \<Rightarrow> Inl e
      | Inr (d_pkg, t) \<Rightarrow>
          files_loop X package ds
            (files(d \<mapsto> msg_file X (if d_pkg = [] then package else d_pkg) t)))"

text \<open>
  \<open>get_dependencies(spec, package, compute_files)\<close>. The calls of \<open>_add_msgs_depends\<close>
  pass three arguments. A \<open>KeyError\<close> raised inside the \<open>try\<close> block is replaced by a
  \<open>MsgSpecException\<close> whose message holds \<open>str(e)\<close>, the string that \<open>KeyError\<close>
  carries in the model; every other exception propagates.
\<close>

definition get_dependencies ::
    "'r externals \<Rightarrow> 'r \<Rightarrow> spec \<Rightarrow> string \<Rightarrow> bool \<Rightarrow> (error + deps_dict) \<times> 'r"
where
  "get_dependencies X r0 spec package compute_files =
     (let r = msgs_init X r0;
          deps = [];
          tried =
            (case spec of
               MsgSpec m \<Rightarrow> add_msgs_depends X r m deps package None
             | SrvSpec s \<Rightarrow>
                 (case add_msgs_depends X r (request s) deps package None of
                    (Inl e, r1) \<Rightarrow> (Inl e, r1)
                  | (Inr deps1, r1) \<Rightarrow> add_msgs_depends X r1 (response s) deps1 package None)
             | Other v \<Rightarrow>
                 (Inl (MsgSpecException ''spec does not appear to be a message or service''), r))
      in case tried of
           (Inl (KeyError k), r1) \<Rightarrow>
             (Inl (MsgSpecException
                (''Cannot load type '' @ k @ ''.  Perhaps the package is missing a dependency.'')),
              r1)
         | (Inl e, r1) \<Rightarrow> (Inl e, r1)
         | (Inr deps1, r1) \<Rightarrow>
             (if compute_files then
                (case files_loop X package (remdups deps1) Map.empty of
                   Inl e \<Rightarrow> (Inl e, r1)
                 | Inr files \<Rightarrow>
                     (Inr \<lparr>dict_files = Some files, dict_deps = deps1, dict_spec = spec,
                           dict_package = package,
                           dict_uniquedeps = unique_loop deps1 []\<rparr>, r1))
              else
                (Inr \<lparr>dict_files = None, dict_deps = deps1, dict_spec = spec,
                      dict_package = package,
                      dict_uniquedeps = unique_loop deps1 []\<rparr>, r1)))"

lemma add_msgs_depends_raises:
  "add_msgs_depends X r spec deps package_context includepath_arg =
     (Inl (case includepath_arg of
             None \<Rightarrow> TypeError ''_add_msgs_depends() takes exactly 4 arguments (3 given)''
           | Some includepath \<Rightarrow> NameError ''log''), r)"
  by (simp add: log_unbound split: option.split)

lemma get_dependencies_no_result:
  "get_dependencies X r spec package compute_files \<noteq> (Inr d, r1)"
  by (cases spec) (simp_all add: get_dependencies_def Let_def)

section \<open>Canonical text and the current fingerprint\<close>

text \<open>
  \<open>str.strip()\<close> with no argument removes leading and trailing whitespace; for a
  Python 2 byte string the whitespace characters are tab, line feed, vertical tab,
  form feed, carriage return and space.
\<close>

definition is_space :: "char \<Rightarrow> bool" where
  "is_space c = (c \<in> set [CHR 0x09, CHR 0x0A, CHR 0x0B, CHR 0x0C, CHR 0x0D, CHR '' ''])"

definition strip :: "string \<Rightarrow> string" where
  "strip s = rev (dropWhile is_space (rev (dropWhile is_space s)))"

definition constant_line :: "Constant \<Rightarrow> string" where
  "constant_line c = const_type c @ '' '' @ const_name c @ ''='' @ val_text c @ ''\<newline>''"

text \<open>
  A line of field text, the format \<open>%s %s\<close> followed by a line feed: \<open>t\<close> is the
  declared type of the field or the fingerprint of its schema.
\<close>

definition field_line :: "string \<Rightarrow> string \<Rightarrow> string" where
  "field_line t name = t @ '' '' @ name @ ''\<newline>''"

text \<open>
  The message of \<open>_compute_hash\<close> for a value that is no schema: the format with one
  \<open>%s\<close> applied to the value. A tuple supplies the arguments: none is too few, one is
  printed, and with two or more the first is printed and the rest is left over, which
  the formatting rejects at its end. Any other object is printed with \<open>str()\<close>.
\<close>

definition format_not_a_message :: "pyshape \<Rightarrow> error + string" where
  "format_not_a_message v =
     (case v of
        Obj a \<Rightarrow>
          (case a of
             Inl e \<Rightarrow> Inl e
           | Inr s \<Rightarrow> Inr (''['' @ s @ ''] is not a message or service''))
      | Tuple [] \<Rightarrow> Inl (TypeError ''not enough arguments for format string'')
      | Tuple [a] \<Rightarrow>
          (case a of
             Inl e \<Rightarrow> Inl e
           | Inr s \<Rightarrow> Inr (''['' @ s @ ''] is not a message or service''))
      | Tuple (a # b # cs) \<Rightarrow>
          (case a of
             Inl e \<Rightarrow> Inl e
           | Inr s \<Rightarrow>
               Inl (TypeError ''not all arguments converted during string formatting'')))"

definition has_files :: "deps_dict \<Rightarrow> bool" where
  "has_files get_deps_dict = (case dict_files get_deps_dict of None \<Rightarrow> False | Some f \<Rightarrow> True)"

text \<open>
  \<open>compute_md5_text\<close>, its loop over \<open>zip(spec.types, spec.names)\<close>
  (\<open>md5_text_fields\<close>), \<open>_compute_hash\<close> and \<open>compute_md5\<close> call each other. The
  collaborators may change the registry, so each returns the registry with its result.
  \<open>compute_md5\<close> imports \<open>hashlib\<close>, which exists in every Python since 2.5, so the
  \<open>ImportError\<close> branch is not taken.

  The functions are total: the only call that leads from a schema to another one, the
  \<open>compute_md5\<close> of a sub-schema, needs a dictionary from \<open>get_dependencies\<close>, and
  \<open>get_dependencies\<close> returns none (\<open>get_dependencies_no_result\<close>).
\<close>

function compute_md5_text ::
    "'r externals \<Rightarrow> 'r \<Rightarrow> deps_dict \<Rightarrow> msgspec \<Rightarrow> (error + string) \<times> 'r"
  and md5_text_fields ::
    "'r externals \<Rightarrow> 'r \<Rightarrow> deps_dict \<Rightarrow> (string \<times> string) list \<Rightarrow> string
      \<Rightarrow> (error + string) \<times> 'r"
  and compute_hash ::
    "'r externals \<Rightarrow> 'r \<Rightarrow> deps_dict \<Rightarrow> hash \<Rightarrow> (error + string) \<times> 'r"
  and compute_md5 ::
    "'r externals \<Rightarrow> 'r \<Rightarrow> deps_dict \<Rightarrow> (error + string) \<times> 'r"
where
  "compute_md5_text X r get_deps_dict spec =
     (let buff = foldl (\<lambda>b c. b @ constant_line c) [] (constants spec) in
      case md5_text_fields X r get_deps_dict (zip (types spec) (names spec)) buff of
        (Inl e, r1) \<Rightarrow> (Inl e, r1)
      | (Inr buff1, r1) \<Rightarrow> (Inr (strip buff1), r1))"
| "md5_text_fields X r get_deps_dict [] buff = (Inr buff, r)"
| "md5_text_fields X r get_deps_dict ((type', name) # rest) buff =
     (let package = dict_package get_deps_dict;
          compute_files = has_files get_deps_dict;
          base_type = base_msg_type X type'
      in
      if is_builtin X base_type then
        md5_text_fields X r get_deps_dict rest (buff @ field_line type' name)
      else
        (case package_resource_name X base_type of
           Inl e \<Rightarrow> (Inl e, r)
         | Inr (sub_pkg0, u) \<Rightarrow>
             (let sub_pkg = (if sub_pkg0 = [] then package else sub_pkg0) in
              case get_registered X r base_type (Some package) of
                Inl e \<Rightarrow> (Inl e, r)
              | Inr sub_spec \<Rightarrow>
                  (case get_dependencies X r (MsgSpec sub_spec) sub_pkg compute_files of
                     (Inl e, r1) \<Rightarrow> (Inl e, r1)
                   | (Inr sub_deps, r1) \<Rightarrow>
                       (case compute_md5 X r1 sub_deps of
                          (Inl e, r2) \<Rightarrow> (Inl e, r2)
                        | (Inr sub_md5, r2) \<Rightarrow>
                            md5_text_fields X r2 get_deps_dict rest
                              (buff @ field_line sub_md5 name))))))"
| "compute_hash X r get_deps_dict h =
     (case dict_spec get_deps_dict of
        MsgSpec m \<Rightarrow>
          (case compute_md5_text X r get_deps_dict m of
             (Inl e, r1) \<Rightarrow> (Inl e, r1)
           | (Inr t, r1) \<Rightarrow> (Inr (hexdigest (hash_update h t)), r1))
      | SrvSpec s \<Rightarrow>
          (case compute_md5_text X r get_deps_dict (request s) of
             (Inl e, r1) \<Rightarrow> (Inl e, r1)
           | (Inr t1, r1) \<Rightarrow>
               (case compute_md5_text X r1 get_deps_dict (response s) of
                  (Inl e, r2) \<Rightarrow> (Inl e, r2)
                | (Inr t2, r2) \<Rightarrow>
                    (Inr (hexdigest (hash_update (hash_update h t1) t2)), r2)))
      | Other v \<Rightarrow>
          (case format_not_a_message (other_shape v) of
             Inl e \<Rightarrow> (Inl e, r)
           | Inr msg \<Rightarrow> (Inl (Exception msg), r)))"
| "compute_md5 X r get_deps_dict = compute_hash X r get_deps_dict (hashlib_md5 X)"
  by pat_completeness auto
termination
  by (relation "measures
        [\<lambda>x. case x of
                Inl (Inl a) \<Rightarrow> 1
              | Inl (Inr b) \<Rightarrow> 0
              | Inr (Inl c) \<Rightarrow> 2
              | Inr (Inr d) \<Rightarrow> 3,
         \<lambda>x. case x of
                Inl (Inr (X, r, g, fs, b)) \<Rightarrow> length fs
              | _ \<Rightarrow> 0]")
     (auto simp: get_dependencies_no_result [THEN not_sym])

declare compute_md5_text.simps [simp del] compute_hash.simps [simp del] compute_md5.simps [simp del]

section \<open>Concrete collaborators and schemas\<close>

text \<open>
  The theorems below hold for all collaborators. To run the model on the scenarios of
  the specification, the collaborators are also given a concrete form over a registry
  that is an association list from type names to schemas.
\<close>

type_synonym registry = "(string \<times> msgspec) list"

text \<open>
  Modelled from the spec: \<open>get_registered(type_name, context_package)\<close> of module
  \<open>msgs\<close>, which is not in \<open>gentools.py\<close>. The schema registered under the name, or
  under the name qualified by the context package; \<open>KeyError\<close> when there is none.
\<close>

definition sample_get_registered :: "registry \<Rightarrow> string \<Rightarrow> string option \<Rightarrow> error + msgspec" where
  "sample_get_registered r t default_package =
     (case map_of r t of
        Some s \<Rightarrow> Inr s
      | None \<Rightarrow>
          (case default_package of
             None \<Rightarrow> Inl (KeyError t)
           | Some p \<Rightarrow>
               (case map_of r (p @ ''/'' @ t) of
                  Some s \<Rightarrow> Inr s
                | None \<Rightarrow> Inl (KeyError t))))"

text \<open>
  Modelled from the spec: the collaborator operations of section 6 (\<open>is_builtin\<close>,
  \<open>is_registered\<close>, \<open>get_registered\<close>, \<open>load_by_type\<close>, \<open>register\<close>, \<open>base_msg_type\<close>,
  \<open>package_resource_name\<close>, \<open>msg_file\<close>), whose code (modules \<open>msgs\<close> and \<open>names\<close>) is
  not in \<open>gentools.py\<close>. \<open>base_msg_type\<close> cuts the array brackets off, the builtin
  types are the three the scenarios use, \<open>package_resource_name\<close> splits at the
  separator \<open>/\<close>, loading from disk always fails, and the digest function \<open>f\<close> stays
  a parameter.
\<close>

definition sample_externals :: "(string \<Rightarrow> string) \<Rightarrow> registry externals" where
  "sample_externals f =
     \<lparr>msgs_init = (\<lambda>r. r),
      base_msg_type = takeWhile (\<lambda>c. c \<noteq> CHR ''[''),
      is_builtin = (\<lambda>t. t \<in> set [''int32'', ''float64'', ''string'']),
      is_registered = (\<lambda>r t. map_of r t \<noteq> None),
      get_registered = sample_get_registered,
      load_by_type = (\<lambda>r t includepath package_context. Inl (IOError t)),
      register = (\<lambda>r key s. (key, s) # r),
      package_resource_name =
        (\<lambda>n. if CHR ''/'' \<in> set n
             then Inr (takeWhile (\<lambda>c. c \<noteq> CHR ''/'') n, tl (dropWhile (\<lambda>c. c \<noteq> CHR ''/'') n))
             else Inr ([], n)),
      msg_file = (\<lambda>p t. p @ ''/msg/'' @ t @ ''.msg''),
      md5 = f\<rparr>"

text \<open>The schemas of the scenarios in section 8 of the specification.\<close>

definition Point :: msgspec where
  "Point = \<lparr>types = [''float64'', ''float64''], names = [''x'', ''y''], constants = [],
            msg_text = ''float64 x\<newline>float64 y\<newline>''\<rparr>"

definition Polygon :: msgspec where
  "Polygon = \<lparr>types = [''Point[]''], names = [''points''], constants = [],
              msg_text = ''Point[] points\<newline>''\<rparr>"

definition sample_registry :: registry where
  "sample_registry = [(''pkg/Point'', Point)]"

definition int32_a :: msgspec where
  "int32_a = \<lparr>types = [''int32''], names = [''a''], constants = [],
              msg_text = ''int32 a\<newline>''\<rparr>"

definition int32_a_dict :: deps_dict where
  "int32_a_dict =
     \<lparr>dict_files = None, dict_deps = [''pkg/Point''], dict_spec = MsgSpec int32_a,
      dict_package = ''pkg'', dict_uniquedeps = [''pkg/Point'']\<rparr>"

definition int32_b :: msgspec where
  "int32_b = \<lparr>types = [''int32''], names = [''b''], constants = [],
              msg_text = ''int32 b\<newline>''\<rparr>"

text \<open>A message with a constant and an array of a builtin type.\<close>

definition samples_msg :: msgspec where
  "samples_msg =
     \<lparr>types = [''float64[]'', ''int32''], names = [''data'', ''n''],
      constants = [\<lparr>const_type = ''string'', const_name = ''NAME'', val_text = ''abc''\<rparr>,
                   \<lparr>const_type = ''int32'', const_name = ''MAX'', val_text = ''10''\<rparr>],
      msg_text = ''string NAME=abc\<newline>int32 MAX=10\<newline>float64[] data\<newline>int32 n\<newline>''\<rparr>"

text \<open>A message whose string constant has a value that ends in a space.\<close>

definition trailing_msg :: msgspec where
  "trailing_msg =
     \<lparr>types = [], names = [],
      constants = [\<lparr>const_type = ''string'', const_name = ''A'', val_text = ''x ''\<rparr>],
      msg_text = ''string A=x \<newline>''\<rparr>"

text \<open>A dictionary as \<open>get_dependencies\<close> is documented to return it, without files.\<close>

definition plain_dict :: "spec \<Rightarrow> string list \<Rightarrow> deps_dict" where
  "plain_dict sp ds =
     \<lparr>dict_files = None, dict_deps = ds, dict_spec = sp, dict_package = ''pkg'',
      dict_uniquedeps = ds\<rparr>"

definition polygon_dict :: deps_dict where
  "polygon_dict = plain_dict (MsgSpec Polygon) [''pkg/Point'']"

text \<open>A service that polls for a polygon, with the dependency of its response.\<close>

definition poll_srv :: srvspec where
  "poll_srv =
     \<lparr>request = int32_a, response = Polygon,
      srv_text = ''int32 a\<newline>---\<newline>Point[] points\<newline>''\<rparr>"

definition poll_dict :: deps_dict where
  "poll_dict = plain_dict (SrvSpec poll_srv) [''pkg/Point'']"

text \<open>
  Values that are no schema: an object with a string attribute \<open>text\<close>, and the pair
  \<open>(1, 2)\<close>, which has none.
\<close>

definition note_value :: other_value where
  "note_value = \<lparr>other_shape = Obj (Inr ''<Note>''), other_text = StrAttr ''abc''\<rparr>"

definition pair_value :: other_value where
  "pair_value = \<lparr>other_shape = Tuple [Inr ''1'', Inr ''2''], other_text = NoAttr\<rparr>"

definition other_dict :: deps_dict where
  "other_dict = plain_dict (Other note_value) []"

definition pair_dict :: deps_dict where
  "pair_dict = plain_dict (Other pair_value) []"

text \<open>
  Two messages of one string constant each; the canonical text of the second is the
  canonical text of the first written twice.
\<close>

definition const_x :: msgspec where
  "const_x = \<lparr>types = [], names = [],
              constants = [\<lparr>const_type = ''string'', const_name = ''A'', val_text = ''x''\<rparr>],
              msg_text = ''string A=x\<newline>''\<rparr>"

definition const_xx :: msgspec where
  "const_xx = \<lparr>types = [], names = [],
               constants = [\<lparr>const_type = ''string'', const_name = ''A'',
                             val_text = ''xstring A=x''\<rparr>],
               msg_text = ''string A=xstring A=x\<newline>''\<rparr>"

definition srv_dict :: "msgspec \<Rightarrow> msgspec \<Rightarrow> deps_dict" where
  "srv_dict req resp =
     plain_dict (SrvSpec \<lparr>request = req, response = resp,
                          srv_text = msg_text req @ ''---\<newline>'' @ msg_text resp\<rparr>) []"

lemmas sample_defs =
  sample_externals_def sample_get_registered_def sample_registry_def Point_def Polygon_def
  plain_dict_def

section \<open>Dependency resolution never succeeds\<close>

text \<open>
  C6. For every message or service schema and every package, \<open>get_dependencies\<close>
  returns no dictionary: its calls of \<open>_add_msgs_depends\<close> pass three arguments to a
  function of four required parameters, which raises \<open>TypeError\<close> right after
  \<open>msgs._init()\<close> and before any field type is looked at. A call that does pass four
  arguments fails on the unbound name \<open>log\<close> in the first statement of the body, and
  the name \<open>rosidl\<close> of the lazy-load branch is unbound as well.
\<close>

theorem get_dependencies_always_raises:
  "get_dependencies X r (MsgSpec m) package compute_files =
     (Inl (TypeError ''_add_msgs_depends() takes exactly 4 arguments (3 given)''), msgs_init X r)
   \<and> get_dependencies X r (SrvSpec s) package compute_files =
     (Inl (TypeError ''_add_msgs_depends() takes exactly 4 arguments (3 given)''), msgs_init X r)
   \<and> add_msgs_depends X r m deps package (Some includepath) = (Inl (NameError ''log''), r)
   \<and> load_global ''rosidl'' = Inl (NameError ''rosidl'')"
  by (simp add: get_dependencies_def Let_def log_unbound rosidl_unbound)

section \<open>Full text assembly\<close>

lemma full_text_loop_layout:
  "map (\<lambda>u. get_registered X r u None) us = map Inr ss \<Longrightarrow>
   full_text_loop X r us buff =
     Inr (buff @ concat (map (\<lambda>(u, s). sep @ ''MSG: '' @ u @ ''\<newline>'' @ msg_text s @ ''\<newline>'')
                          (zip us ss)))"
proof (induction us arbitrary: ss buff)
  case Nil
  then show ?case by simp
next
  case (Cons u us)
  then obtain s ss' where ss: "ss = s # ss'" by (cases ss) auto
  with Cons.prems have h: "get_registered X r u None = Inr s"
    and t: "map (\<lambda>u. get_registered X r u None) us = map Inr ss'" by auto
  show ?case using Cons.IH [OF t] h ss by simp
qed

lemma blocks_end_newline:
  "\<exists>y. t @ ''\<newline>'' @ concat (map (\<lambda>(u, s). sep @ ''MSG: '' @ u @ ''\<newline>'' @ msg_text s @ ''\<newline>'') zs)
       = y @ ''\<newline>''"
proof (cases zs rule: rev_cases)
  case Nil
  then show ?thesis by simp
next
  case (snoc zs' z)
  obtain u s where z: "z = (u, s)" by (cases z)
  show ?thesis unfolding snoc z
    by (rule exI [of _ "t @ ''\<newline>'' @ concat (map (\<lambda>(u, s). sep @ ''MSG: '' @ u @ ''\<newline>'' @ msg_text s @ ''\<newline>'') zs') @ sep @ ''MSG: '' @ u @ ''\<newline>'' @ msg_text s"]) simp
qed

text \<open>
  C8. When every entry of \<open>uniquedeps\<close> is registered (\<open>ss\<close> are the registered
  schemas, in order), \<open>compute_full_text\<close> returns the document \<open>out\<close> such that \<open>out\<close>
  followed by one line feed is: the raw text of the root (\<open>text\<close> of the message, or
  \<open>text\<close> of the service), a line feed, and for each entry in order the line of 80
  \<open>=\<close>, the line \<open>MSG: <type>\<close>, the raw text of the dependency and a line feed. So
  exactly the last line feed written is trimmed.
\<close>

theorem compute_full_text_layout:
  assumes "map (\<lambda>u. get_registered X r u None) (dict_uniquedeps d) = map Inr ss"
  shows "(dict_spec d = MsgSpec m \<longrightarrow>
            (\<exists>out. compute_full_text X r d = Inr out \<and>
               out @ ''\<newline>'' =
                 msg_text m @ ''\<newline>'' @
                 concat (map (\<lambda>(u, s). replicate 80 (CHR ''='') @ ''\<newline>'' @
                                       ''MSG: '' @ u @ ''\<newline>'' @ msg_text s @ ''\<newline>'')
                             (zip (dict_uniquedeps d) ss))))
       \<and> (dict_spec d = SrvSpec v \<longrightarrow>
            (\<exists>out. compute_full_text X r d = Inr out \<and>
               out @ ''\<newline>'' =
                 srv_text v @ ''\<newline>'' @
                 concat (map (\<lambda>(u, s). replicate 80 (CHR ''='') @ ''\<newline>'' @
                                       ''MSG: '' @ u @ ''\<newline>'' @ msg_text s @ ''\<newline>'')
                             (zip (dict_uniquedeps d) ss))))"
proof -
  let ?blocks = "concat (map (\<lambda>(u, s). sep @ ''MSG: '' @ u @ ''\<newline>'' @ msg_text s @ ''\<newline>'')
                         (zip (dict_uniquedeps d) ss))"
  have layout: "\<exists>out. compute_full_text X r d = Inr out \<and> out @ ''\<newline>'' = t @ ''\<newline>'' @ ?blocks"
    if t: "spec_text (dict_spec d) = Inr t" for t
  proof -
    obtain y where y: "t @ ''\<newline>'' @ ?blocks = y @ ''\<newline>''"
      using blocks_end_newline by blast
    have "compute_full_text X r d = Inr (butlast ((t @ ''\<newline>'') @ ?blocks))"
      using t assms by (simp add: compute_full_text_def full_text_loop_layout)
    also have "(t @ ''\<newline>'') @ ?blocks = y @ ''\<newline>''" using y by simp
    finally have "compute_full_text X r d = Inr y" by simp
    with y show ?thesis by simp
  qed
  have "dict_spec d = MsgSpec m \<Longrightarrow> spec_text (dict_spec d) = Inr (msg_text m)"
    and "dict_spec d = SrvSpec v \<Longrightarrow> spec_text (dict_spec d) = Inr (srv_text v)"
    by (simp_all add: spec_text_def)
  with layout show ?thesis by (auto simp: sep_def)
qed

theorem compute_full_text_layout_witness:
  "\<forall>f. map (\<lambda>u. get_registered (sample_externals f) sample_registry u None)
          (dict_uniquedeps polygon_dict) = map Inr [Point]
     \<and> dict_spec polygon_dict = MsgSpec Polygon
     \<and> compute_full_text (sample_externals f) sample_registry polygon_dict =
         Inr (''Point[] points\<newline>'' @ ''\<newline>'' @ replicate 80 (CHR ''='') @ ''\<newline>'' @
              ''MSG: pkg/Point\<newline>'' @ ''float64 x\<newline>float64 y\<newline>'')
     \<and> map (\<lambda>u. get_registered (sample_externals f) sample_registry u None)
          (dict_uniquedeps poll_dict) = map Inr [Point]
     \<and> dict_spec poll_dict = SrvSpec poll_srv
     \<and> compute_full_text (sample_externals f) sample_registry poll_dict =
         Inr (''int32 a\<newline>---\<newline>Point[] points\<newline>'' @ ''\<newline>'' @
              replicate 80 (CHR ''='') @ ''\<newline>'' @
              ''MSG: pkg/Point\<newline>'' @ ''float64 x\<newline>float64 y\<newline>'')"
proof
  fix f
  let ?X = "sample_externals f"
  have reg: "get_registered ?X sample_registry ''pkg/Point'' None = Inr Point"
    by (simp add: sample_externals_def sample_get_registered_def sample_registry_def)
  have a: "map (\<lambda>u. get_registered ?X sample_registry u None)
             (dict_uniquedeps polygon_dict) = map Inr [Point]"
    using reg by (simp add: polygon_dict_def plain_dict_def)
  have b: "dict_spec polygon_dict = MsgSpec Polygon"
    by (simp add: polygon_dict_def plain_dict_def)
  have a2: "map (\<lambda>u. get_registered ?X sample_registry u None)
             (dict_uniquedeps poll_dict) = map Inr [Point]"
    using reg by (simp add: poll_dict_def plain_dict_def)
  have b2: "dict_spec poll_dict = SrvSpec poll_srv"
    by (simp add: poll_dict_def plain_dict_def)
  have u: "dict_uniquedeps polygon_dict = [''pkg/Point'']"
    "dict_uniquedeps poll_dict = [''pkg/Point'']"
    by (simp_all add: polygon_dict_def poll_dict_def plain_dict_def)
  from compute_full_text_layout [OF a, of Polygon] b u
  have one: "compute_full_text ?X sample_registry polygon_dict =
         Inr (''Point[] points\<newline>'' @ ''\<newline>'' @ replicate 80 (CHR ''='') @ ''\<newline>'' @
              ''MSG: pkg/Point\<newline>'' @ ''float64 x\<newline>float64 y\<newline>'')"
    by (auto simp: Polygon_def Point_def)
  from compute_full_text_layout [OF a2, of _ poll_srv] b2 u
  have two: "compute_full_text ?X sample_registry poll_dict =
         Inr (''int32 a\<newline>---\<newline>Point[] points\<newline>'' @ ''\<newline>'' @
              replicate 80 (CHR ''='') @ ''\<newline>'' @
              ''MSG: pkg/Point\<newline>'' @ ''float64 x\<newline>float64 y\<newline>'')"
    by (auto simp: poll_srv_def Point_def)
  show "map (\<lambda>u. get_registered ?X sample_registry u None)
          (dict_uniquedeps polygon_dict) = map Inr [Point]
     \<and> dict_spec polygon_dict = MsgSpec Polygon
     \<and> compute_full_text ?X sample_registry polygon_dict =
         Inr (''Point[] points\<newline>'' @ ''\<newline>'' @ replicate 80 (CHR ''='') @ ''\<newline>'' @
              ''MSG: pkg/Point\<newline>'' @ ''float64 x\<newline>float64 y\<newline>'')
     \<and> map (\<lambda>u. get_registered ?X sample_registry u None)
          (dict_uniquedeps poll_dict) = map Inr [Point]
     \<and> dict_spec poll_dict = SrvSpec poll_srv
     \<and> compute_full_text ?X sample_registry poll_dict =
         Inr (''int32 a\<newline>---\<newline>Point[] points\<newline>'' @ ''\<newline>'' @
              replicate 80 (CHR ''='') @ ''\<newline>'' @
              ''MSG: pkg/Point\<newline>'' @ ''float64 x\<newline>float64 y\<newline>'')"
    using a b one a2 b2 two by blast
qed

text \<open>
  C9, as the code has it. For a root text \<open>int32 a\<close> with its line feed, and
  \<open>uniquedeps\<close> exactly \<open>pkg/Point\<close> registered with the text of two \<open>float64\<close> lines,
  \<open>compute_full_text\<close> returns the root text, an empty line, the line of 80 \<open>=\<close>, the
  marker line and the dependency's text with its own final line feed: only the line
  feed that the loop appended after the dependency is removed.
\<close>

theorem full_text_scenario:
  assumes "spec_text (dict_spec d) = Inr ''int32 a\<newline>''"
    and "dict_uniquedeps d = [''pkg/Point'']"
    and "get_registered X r ''pkg/Point'' None = Inr s"
    and "msg_text s = ''float64 x\<newline>float64 y\<newline>''"
  shows "compute_full_text X r d =
           Inr (''int32 a\<newline>'' @ ''\<newline>'' @ replicate 80 (CHR ''='') @ ''\<newline>'' @
                ''MSG: pkg/Point\<newline>'' @ ''float64 x\<newline>float64 y\<newline>'')"
  using assms by (simp add: compute_full_text_def sep_def butlast_append)

theorem full_text_scenario_witness:
  "\<forall>f. spec_text (dict_spec int32_a_dict) = Inr ''int32 a\<newline>''
     \<and> dict_uniquedeps int32_a_dict = [''pkg/Point'']
     \<and> get_registered (sample_externals f) sample_registry ''pkg/Point'' None = Inr Point
     \<and> msg_text Point = ''float64 x\<newline>float64 y\<newline>''
     \<and> compute_full_text (sample_externals f) sample_registry int32_a_dict =
           Inr (''int32 a\<newline>'' @ ''\<newline>'' @ replicate 80 (CHR ''='') @ ''\<newline>'' @
                ''MSG: pkg/Point\<newline>'' @ ''float64 x\<newline>float64 y\<newline>'')"
proof
  fix f
  have a: "spec_text (dict_spec int32_a_dict) = Inr ''int32 a\<newline>''"
    by (simp add: spec_text_def int32_a_dict_def int32_a_def)
  have b: "dict_uniquedeps int32_a_dict = [''pkg/Point'']"
    by (simp add: int32_a_dict_def)
  have c: "get_registered (sample_externals f) sample_registry ''pkg/Point'' None = Inr Point"
    by (simp add: sample_externals_def sample_get_registered_def sample_registry_def)
  have e: "msg_text Point = ''float64 x\<newline>float64 y\<newline>''"
    by (simp add: Point_def)
  show "spec_text (dict_spec int32_a_dict) = Inr ''int32 a\<newline>''
     \<and> dict_uniquedeps int32_a_dict = [''pkg/Point'']
     \<and> get_registered (sample_externals f) sample_registry ''pkg/Point'' None = Inr Point
     \<and> msg_text Point = ''float64 x\<newline>float64 y\<newline>''
     \<and> compute_full_text (sample_externals f) sample_registry int32_a_dict =
           Inr (''int32 a\<newline>'' @ ''\<newline>'' @ replicate 80 (CHR ''='') @ ''\<newline>'' @
                ''MSG: pkg/Point\<newline>'' @ ''float64 x\<newline>float64 y\<newline>'')"
    using a b c e full_text_scenario [OF a b c e] by blast
qed

text \<open>
  C9, as the specification states it: the root text directly followed by the delimiter
  line, the marker line and the dependency's text, with the final line feed removed.
  The code returns a different string on that input.
\<close>

theorem full_text_scenario_counterexample:
  "\<forall>f. compute_full_text (sample_externals f) sample_registry int32_a_dict \<noteq>
     Inr (butlast (''int32 a\<newline>'' @ replicate 80 (CHR ''='') @ ''\<newline>'' @
                   ''MSG: pkg/Point\<newline>'' @ ''float64 x\<newline>float64 y\<newline>''))"
  by (simp add: compute_full_text_def spec_text_def int32_a_dict_def int32_a_def
      sample_externals_def sample_get_registered_def sample_registry_def Point_def sep_def
      eval_nat_numeral)

section \<open>The legacy fingerprint\<close>

lemma hash_v1_loop_fold:
  "map (\<lambda>u. get_registered X r u None) us = map Inr ss \<Longrightarrow>
   hash_v1_loop X r us h = Inr (foldl hash_update h (map msg_text ss))"
proof (induction us arbitrary: ss h)
  case Nil
  then show ?case by simp
next
  case (Cons u us)
  then obtain s ss' where ss: "ss = s # ss'" by (cases ss) auto
  with Cons.prems have h: "get_registered X r u None = Inr s"
    and t: "map (\<lambda>u. get_registered X r u None) us = map Inr ss'" by auto
  show ?case using Cons.IH [OF t] h ss by simp
qed

lemma hexdigest_foldl_update:
  "hexdigest (foldl hash_update h ts) = digest_fn h (fed h @ concat ts)"
  by (induction ts arbitrary: h) (simp_all add: hexdigest_def hash_update_def)

text \<open>
  C7. When the entries of \<open>uniquedeps\<close> are registered as \<open>ss\<close>, the legacy
  fingerprint is the hex digest of the hash instance updated with the raw text of the
  root (\<open>text\<close> of the message, or \<open>text\<close> of the service) and then with the raw text
  of each dependency in the order of \<open>uniquedeps\<close>: the digest of these raw texts
  written one after the other, nothing substituted. For \<open>compute_md5_v1\<close> the instance
  is a fresh MD5.
\<close>

theorem compute_hash_v1_raw_texts:
  assumes "map (\<lambda>u. get_registered X r u None) (dict_uniquedeps d) = map Inr ss"
  shows "(dict_spec d = MsgSpec m \<longrightarrow>
            compute_hash_v1 X r d h =
              Inr (hexdigest (foldl hash_update (hash_update h (msg_text m)) (map msg_text ss)))
          \<and> compute_hash_v1 X r d h =
              Inr (digest_fn h (fed h @ msg_text m @ concat (map msg_text ss)))
          \<and> compute_md5_v1 X r d = Inr (md5 X (msg_text m @ concat (map msg_text ss))))
       \<and> (dict_spec d = SrvSpec v \<longrightarrow>
            compute_hash_v1 X r d h =
              Inr (hexdigest (foldl hash_update (hash_update h (srv_text v)) (map msg_text ss)))
          \<and> compute_hash_v1 X r d h =
              Inr (digest_fn h (fed h @ srv_text v @ concat (map msg_text ss)))
          \<and> compute_md5_v1 X r d = Inr (md5 X (srv_text v @ concat (map msg_text ss))))"
  using assms
  by (simp add: compute_md5_v1_def compute_hash_v1_def spec_text_def hash_v1_loop_fold
      hexdigest_foldl_update hash_update_def hashlib_md5_def)

theorem compute_hash_v1_raw_texts_witness:
  "\<forall>f. map (\<lambda>u. get_registered (sample_externals f) sample_registry u None)
          (dict_uniquedeps polygon_dict) = map Inr [Point]
     \<and> dict_spec polygon_dict = MsgSpec Polygon
     \<and> compute_md5_v1 (sample_externals f) sample_registry polygon_dict =
         Inr (f ''Point[] points\<newline>float64 x\<newline>float64 y\<newline>'')
     \<and> map (\<lambda>u. get_registered (sample_externals f) sample_registry u None)
          (dict_uniquedeps poll_dict) = map Inr [Point]
     \<and> dict_spec poll_dict = SrvSpec poll_srv
     \<and> compute_md5_v1 (sample_externals f) sample_registry poll_dict =
         Inr (f ''int32 a\<newline>---\<newline>Point[] points\<newline>float64 x\<newline>float64 y\<newline>'')"
proof
  fix f
  let ?X = "sample_externals f"
  have reg: "get_registered ?X sample_registry ''pkg/Point'' None = Inr Point"
    by (simp add: sample_externals_def sample_get_registered_def sample_registry_def)
  have a: "map (\<lambda>u. get_registered ?X sample_registry u None)
             (dict_uniquedeps polygon_dict) = map Inr [Point]"
    using reg by (simp add: polygon_dict_def plain_dict_def)
  have b: "dict_spec polygon_dict = MsgSpec Polygon"
    by (simp add: polygon_dict_def plain_dict_def)
  have a2: "map (\<lambda>u. get_registered ?X sample_registry u None)
             (dict_uniquedeps poll_dict) = map Inr [Point]"
    using reg by (simp add: poll_dict_def plain_dict_def)
  have b2: "dict_spec poll_dict = SrvSpec poll_srv"
    by (simp add: poll_dict_def plain_dict_def)
  have m: "md5 ?X = f" by (simp add: sample_externals_def)
  from compute_hash_v1_raw_texts [OF a, of Polygon "hashlib_md5 ?X"] b
  have one: "compute_md5_v1 ?X sample_registry polygon_dict =
         Inr (f ''Point[] points\<newline>float64 x\<newline>float64 y\<newline>'')"
    by (simp add: m Polygon_def Point_def)
  from compute_hash_v1_raw_texts [OF a2, of _ "hashlib_md5 ?X" poll_srv] b2
  have two: "compute_md5_v1 ?X sample_registry poll_dict =
         Inr (f ''int32 a\<newline>---\<newline>Point[] points\<newline>float64 x\<newline>float64 y\<newline>'')"
    by (simp add: m poll_srv_def Point_def)
  show "map (\<lambda>u. get_registered ?X sample_registry u None)
          (dict_uniquedeps polygon_dict) = map Inr [Point]
     \<and> dict_spec polygon_dict = MsgSpec Polygon
     \<and> compute_md5_v1 ?X sample_registry polygon_dict =
         Inr (f ''Point[] points\<newline>float64 x\<newline>float64 y\<newline>'')
     \<and> map (\<lambda>u. get_registered ?X sample_registry u None)
          (dict_uniquedeps poll_dict) = map Inr [Point]
     \<and> dict_spec poll_dict = SrvSpec poll_srv
     \<and> compute_md5_v1 ?X sample_registry poll_dict =
         Inr (f ''int32 a\<newline>---\<newline>Point[] points\<newline>float64 x\<newline>float64 y\<newline>'')"
    using a b one a2 b2 two by blast
qed

section \<open>Values that are no schema\<close>

text \<open>
  C10, as the code has it. For a value \<open>v\<close> that is neither a message nor a service
  schema:

  \<^item> \<open>get_dependencies\<close> raises \<open>MsgSpecException\<close> once \<open>msgs._init()\<close> has run.
  \<^item> The current fingerprint always raises, and leaves the registry alone. It raises
    the \<open>Exception\<close> whose message names the value when the value is an object that is
    no tuple, or a tuple of one element; the \<open>TypeError\<close> of the formatting when the
    value is a tuple of no or of several elements; and whatever \<open>str()\<close> raises on the
    value or on the first element of the tuple.
  \<^item> The legacy fingerprint does not look at the kind of the value. It raises
    \<open>AttributeError\<close> when the value has no attribute \<open>text\<close>, and the exception of
    \<open>update\<close> when that attribute is neither a string nor a buffer. When the attribute
    is a string and the entries of \<open>uniquedeps\<close> are registered, it returns the digest
    of that string followed by the raw texts of the dependencies.
\<close>

theorem other_value_errors:
  assumes "dict_spec d = Other v"
  shows "get_dependencies X r (Other v) package compute_files =
           (Inl (MsgSpecException ''spec does not appear to be a message or service''),
            msgs_init X r)
       \<and> (\<exists>e. compute_md5 X r d = (Inl e, r))
       \<and> (other_shape v = Obj (Inr s) \<or> other_shape v = Tuple [Inr s] \<longrightarrow>
            compute_md5 X r d =
              (Inl (Exception (''['' @ s @ ''] is not a message or service'')), r))
       \<and> (other_shape v = Tuple [] \<longrightarrow>
            compute_md5 X r d = (Inl (TypeError ''not enough arguments for format string''), r))
       \<and> (other_shape v = Tuple (Inr s # a # as) \<longrightarrow>
            compute_md5 X r d =
              (Inl (TypeError ''not all arguments converted during string formatting''), r))
       \<and> (other_shape v = Obj (Inl e1) \<or> other_shape v = Tuple (Inl e1 # as) \<longrightarrow>
            compute_md5 X r d = (Inl e1, r))
       \<and> (other_text v = NoAttr \<longrightarrow> compute_md5_v1 X r d = Inl (AttributeError ''text''))
       \<and> (other_text v = BadAttr e2 \<longrightarrow> compute_md5_v1 X r d = Inl e2)
       \<and> (other_text v = StrAttr t
            \<and> map (\<lambda>u. get_registered X r u None) (dict_uniquedeps d) = map Inr ss \<longrightarrow>
            compute_md5_v1 X r d = Inr (md5 X (t @ concat (map msg_text ss))))"
proof -
  have current: "compute_md5 X r d =
      (case format_not_a_message (other_shape v) of
         Inl e \<Rightarrow> (Inl e, r)
       | Inr msg \<Rightarrow> (Inl (Exception msg), r))"
    using assms by (simp add: compute_md5.simps compute_hash.simps)
  have fails: "\<exists>e. compute_md5 X r d = (Inl e, r)"
    unfolding current by (cases "format_not_a_message (other_shape v)") simp_all
  have several: "other_shape v = Tuple (Inl e1 # as) \<Longrightarrow> compute_md5 X r d = (Inl e1, r)"
    unfolding current by (cases as) (simp_all add: format_not_a_message_def)
  have legacy: "compute_md5_v1 X r d = Inr (md5 X (t @ concat (map msg_text ss)))"
    if "other_text v = StrAttr t"
      "map (\<lambda>u. get_registered X r u None) (dict_uniquedeps d) = map Inr ss"
    using that assms
    by (simp add: compute_md5_v1_def compute_hash_v1_def spec_text_def hash_v1_loop_fold
        hexdigest_foldl_update hash_update_def hashlib_md5_def)
  show ?thesis
    using assms fails several legacy
    by (auto simp: current format_not_a_message_def get_dependencies_def Let_def
        compute_md5_v1_def compute_hash_v1_def spec_text_def)
qed

theorem other_value_errors_witness:
  "\<forall>f. dict_spec other_dict = Other note_value
     \<and> get_dependencies (sample_externals f) sample_registry (Other note_value) ''pkg'' True =
         (Inl (MsgSpecException ''spec does not appear to be a message or service''),
          sample_registry)
     \<and> compute_md5 (sample_externals f) sample_registry other_dict =
         (Inl (Exception ''[<Note>] is not a message or service''), sample_registry)
     \<and> compute_md5_v1 (sample_externals f) sample_registry other_dict = Inr (f ''abc'')
     \<and> dict_spec pair_dict = Other pair_value
     \<and> compute_md5 (sample_externals f) sample_registry pair_dict =
         (Inl (TypeError ''not all arguments converted during string formatting''),
          sample_registry)
     \<and> compute_md5_v1 (sample_externals f) sample_registry pair_dict =
         Inl (AttributeError ''text'')"
proof
  fix f
  let ?X = "sample_externals f"
  have a: "dict_spec other_dict = Other note_value"
    by (simp add: other_dict_def plain_dict_def)
  have b: "dict_spec pair_dict = Other pair_value"
    by (simp add: pair_dict_def plain_dict_def)
  have m: "md5 ?X = f" "msgs_init ?X sample_registry = sample_registry"
    by (simp_all add: sample_externals_def)
  have u: "dict_uniquedeps other_dict = []"
    by (simp add: other_dict_def plain_dict_def)
  from other_value_errors
    [OF a, of ?X sample_registry "''pkg''" True "''<Note>''" _ _ _ _ "''abc''" "[]"]
  have one: "get_dependencies ?X sample_registry (Other note_value) ''pkg'' True =
         (Inl (MsgSpecException ''spec does not appear to be a message or service''),
          sample_registry)"
    "compute_md5 ?X sample_registry other_dict =
         (Inl (Exception ''[<Note>] is not a message or service''), sample_registry)"
    "compute_md5_v1 ?X sample_registry other_dict = Inr (f ''abc'')"
    by (simp_all add: note_value_def m u)
  from other_value_errors
    [OF b, of ?X sample_registry "''pkg''" True "''1''" "Inr ''2''" "[]"]
  have two: "compute_md5 ?X sample_registry pair_dict =
         (Inl (TypeError ''not all arguments converted during string formatting''),
          sample_registry)"
    "compute_md5_v1 ?X sample_registry pair_dict = Inl (AttributeError ''text'')"
    by (simp_all add: pair_value_def)
  show "dict_spec other_dict = Other note_value
     \<and> get_dependencies ?X sample_registry (Other note_value) ''pkg'' True =
         (Inl (MsgSpecException ''spec does not appear to be a message or service''),
          sample_registry)
     \<and> compute_md5 ?X sample_registry other_dict =
         (Inl (Exception ''[<Note>] is not a message or service''), sample_registry)
     \<and> compute_md5_v1 ?X sample_registry other_dict = Inr (f ''abc'')
     \<and> dict_spec pair_dict = Other pair_value
     \<and> compute_md5 ?X sample_registry pair_dict =
         (Inl (TypeError ''not all arguments converted during string formatting''),
          sample_registry)
     \<and> compute_md5_v1 ?X sample_registry pair_dict = Inl (AttributeError ''text'')"
    using a b one two by blast
qed

text \<open>
  C10, as the specification states it, asks the legacy fingerprint to fail on every
  value that is no schema. On a value with the string attribute \<open>text\<close> it returns a
  digest instead, whatever the collaborators are.
\<close>

theorem legacy_accepts_other_counterexample:
  "\<forall>X r. compute_md5_v1 X r other_dict = Inr (md5 X ''abc'')"
  by (simp add: compute_md5_v1_def compute_hash_v1_def spec_text_def other_dict_def
      note_value_def plain_dict_def hashlib_md5_def hash_update_def hexdigest_def)

section \<open>Canonical text\<close>

lemma constants_loop:
  "foldl (\<lambda>b c. b @ constant_line c) acc cs = acc @ concat (map constant_line cs)"
  by (induction cs arbitrary: acc) simp_all

lemma md5_text_fields_builtin:
  "list_all (\<lambda>(t, n). is_builtin X (base_msg_type X t)) fs \<Longrightarrow>
   md5_text_fields X r d fs buff = (Inr (buff @ concat (map (\<lambda>(t, n). field_line t n) fs)), r)"
  by (induction fs arbitrary: buff) (auto simp: Let_def)

text \<open>
  The loop over the fields returns a text only when every field is of a builtin type,
  and then the registry is as before: a field of another type ends in an exception,
  because \<open>get_dependencies\<close> never returns.
\<close>

lemma md5_text_fields_result:
  "md5_text_fields X r d fs buff = (Inr out, r1) \<Longrightarrow>
   list_all (\<lambda>(t, n). is_builtin X (base_msg_type X t)) fs \<and> r1 = r"
proof (induction fs arbitrary: buff)
  case Nil
  then show ?case by simp
next
  case (Cons p fs)
  obtain t n where p: "p = (t, n)" by (cases p)
  show ?case
  proof (cases "is_builtin X (base_msg_type X t)")
    case True
    with Cons.prems p have "md5_text_fields X r d fs (buff @ field_line t n) = (Inr out, r1)"
      by (simp add: Let_def)
    from Cons.IH [OF this] True p show ?thesis by simp
  next
    case False
    with Cons.prems p have False
      by (auto simp: Let_def get_dependencies_no_result split: sum.splits prod.splits)
    then show ?thesis ..
  qed
qed

lemma compute_md5_text_frame:
  assumes "fst (compute_md5_text X r d m) = Inr a"
  shows "compute_md5_text X r d m = (Inr a, r)"
proof -
  obtain r1 where r1: "compute_md5_text X r d m = (Inr a, r1)"
    using assms by (cases "compute_md5_text X r d m") auto
  then obtain buff where "md5_text_fields X r d (zip (types m) (names m))
        (foldl (\<lambda>b c. b @ constant_line c) [] (constants m)) = (Inr buff, r1)"
    by (auto simp: compute_md5_text.simps Let_def split: prod.splits sum.splits)
  from md5_text_fields_result [OF this] r1 show ?thesis by simp
qed

lemma compute_md5_text_state:
  "compute_md5_text X r d m = (Inr a, r1) \<Longrightarrow> r1 = r"
  using compute_md5_text_frame [of X r d m a] by simp

lemma compute_hash_frame:
  "compute_hash X r d h = (Inr s, r1) \<Longrightarrow> r1 = r"
  by (cases "dict_spec d")
     (auto simp: compute_hash.simps split: prod.splits sum.splits dest: compute_md5_text_state)

subsection \<open>What \<open>strip\<close> removes\<close>

lemma strip_line:
  assumes "s \<noteq> []" "\<not> is_space (hd s)" "\<not> is_space (last s)"
  shows "strip (s @ ''\<newline>'') = s"
proof -
  from assms obtain x xs where s: "s = x # xs" and x: "\<not> is_space x" by (cases s) auto
  have a: "dropWhile is_space (s @ ''\<newline>'') = s @ ''\<newline>''" using s x by simp
  have nl: "is_space (CHR 0x0A)" by (simp add: is_space_def)
  from assms(1) obtain ys y where ys: "s = ys @ [y]" by (cases s rule: rev_cases) auto
  have b: "dropWhile is_space (rev s) = rev s" using assms(3) by (simp add: ys)
  show ?thesis using a b nl by (simp add: strip_def)
qed

text \<open>
  Every string is whitespace, then its stripped form, then whitespace; and the stripped
  form neither starts nor ends with whitespace.
\<close>

lemma strip_decomposition:
  "\<exists>pre post. s = pre @ strip s @ post
     \<and> (\<forall>c \<in> set pre. is_space c) \<and> (\<forall>c \<in> set post. is_space c)
     \<and> (strip s = [] \<or> \<not> is_space (hd (strip s)) \<and> \<not> is_space (last (strip s)))"
proof -
  let ?pre = "takeWhile is_space s"
  let ?rest = "dropWhile is_space s"
  let ?post = "rev (takeWhile is_space (rev ?rest))"
  have rest: "?rest = strip s @ ?post"
  proof -
    have e: "rev (takeWhile is_space xs @ dropWhile is_space xs) = rev xs" for xs by simp
    from e [of "rev ?rest"]
    have "rev (dropWhile is_space (rev ?rest)) @ rev (takeWhile is_space (rev ?rest)) = ?rest"
      by (simp only: rev_append rev_rev_ident)
    then show ?thesis by (simp only: strip_def)
  qed
  have whole: "s = ?pre @ strip s @ ?post"
    using rest takeWhile_dropWhile_id [of is_space s] by simp
  have pre: "\<forall>c \<in> set ?pre. is_space c" by (auto dest: set_takeWhileD)
  have post: "\<forall>c \<in> set ?post. is_space c" by (auto dest: set_takeWhileD)
  have ends: "\<not> is_space (hd (strip s)) \<and> \<not> is_space (last (strip s))" if ne: "strip s \<noteq> []"
  proof
    from ne rest have "?rest \<noteq> []" by (metis Nil_is_append_conv)
    then have "\<not> is_space (hd ?rest)" by (rule hd_dropWhile)
    moreover from ne rest have "hd ?rest = hd (strip s)" by (metis hd_append2)
    ultimately show "\<not> is_space (hd (strip s))" by simp
  next
    from ne have d: "dropWhile is_space (rev ?rest) \<noteq> []" by (simp add: strip_def)
    then have "\<not> is_space (hd (dropWhile is_space (rev ?rest)))" by (rule hd_dropWhile)
    moreover have "last (strip s) = hd (dropWhile is_space (rev ?rest))"
      using d by (simp add: strip_def last_rev)
    ultimately show "\<not> is_space (last (strip s))" by simp
  qed
  from whole pre post ends show ?thesis by blast
qed

lemma builtin_text:
  assumes "list_all (\<lambda>(t, n). is_builtin X (base_msg_type X t)) (zip (types m) (names m))"
  shows "compute_md5_text X r d m =
           (Inr (strip
              (concat (map (\<lambda>c. const_type c @ '' '' @ const_name c @ ''='' @ val_text c @ ''\<newline>'')
                           (constants m)) @
               concat (map (\<lambda>(t, n). t @ '' '' @ n @ ''\<newline>'') (zip (types m) (names m))))), r)"
proof -
  have c: "map constant_line cs =
           map (\<lambda>c. const_type c @ '' '' @ const_name c @ ''='' @ val_text c @ ''\<newline>'') cs" for cs
    by (simp add: constant_line_def)
  have f: "map (\<lambda>(t, n). field_line t n) fs = map (\<lambda>(t, n). t @ '' '' @ n @ ''\<newline>'') fs"
    for fs :: "(string \<times> string) list"
    by (simp add: field_line_def)
  show ?thesis
    by (simp add: compute_md5_text.simps Let_def md5_text_fields_builtin [OF assms]
        constants_loop c f)
qed

subsection \<open>Constants and fields of builtin type\<close>

text \<open>
  C1, as the code has it. For a message schema whose fields are all of a builtin
  type, \<open>compute_md5_text\<close> returns a text \<open>out\<close> and leaves the registry alone. Write
  the line \<open>type name=value\<close> of each constant in declaration order, then the line
  \<open>type name\<close> of each field with the type as declared (array brackets included), each
  line ended by a line feed. That string is \<open>out\<close> between two runs of whitespace (tab,
  line feed, vertical tab, form feed, carriage return, space), and \<open>out\<close> neither
  starts nor ends with whitespace. When the string itself does not start with
  whitespace and has none before its final line feed, \<open>out\<close> is the string without
  that line feed.
\<close>

theorem compute_md5_text_builtin:
  assumes "list_all (\<lambda>(t, n). is_builtin X (base_msg_type X t)) (zip (types m) (names m))"
    and "lines =
           concat (map (\<lambda>c. const_type c @ '' '' @ const_name c @ ''='' @ val_text c @ ''\<newline>'')
                       (constants m)) @
           concat (map (\<lambda>(t, n). t @ '' '' @ n @ ''\<newline>'') (zip (types m) (names m)))"
    and "W = set [CHR 0x09, CHR 0x0A, CHR 0x0B, CHR 0x0C, CHR 0x0D, CHR '' '']"
  shows "\<exists>out pre post.
           compute_md5_text X r d m = (Inr out, r)
         \<and> lines = pre @ out @ post
         \<and> set pre \<subseteq> W \<and> set post \<subseteq> W
         \<and> (out = [] \<or> hd out \<notin> W \<and> last out \<notin> W)
         \<and> (lines \<noteq> [] \<and> hd lines \<notin> W \<and> last (butlast lines) \<notin> W \<longrightarrow>
              out @ ''\<newline>'' = lines)"
proof -
  have W: "c \<in> W \<longleftrightarrow> is_space c" for c
    by (simp add: assms(3) is_space_def)
  have res: "compute_md5_text X r d m = (Inr (strip lines), r)"
    unfolding assms(2) by (rule builtin_text [OF assms(1)])
  obtain pre post where dec: "lines = pre @ strip lines @ post"
    "\<forall>c \<in> set pre. is_space c" "\<forall>c \<in> set post. is_space c"
    "strip lines = [] \<or> \<not> is_space (hd (strip lines)) \<and> \<not> is_space (last (strip lines))"
    using strip_decomposition [of lines] by blast
  have final: "strip lines @ ''\<newline>'' = lines"
    if ne: "lines \<noteq> []" and h: "hd lines \<notin> W" and l: "last (butlast lines) \<notin> W"
  proof -
    have nl: "\<exists>y. lines = y @ ''\<newline>''"
    proof (cases "zip (types m) (names m)" rule: rev_cases)
      case Nil
      with ne obtain cs c where cs: "constants m = cs @ [c]"
        unfolding assms(2) by (cases "constants m" rule: rev_cases) auto
      show ?thesis unfolding assms(2) Nil cs
        by (rule exI [of _ "concat (map (\<lambda>c. const_type c @ '' '' @ const_name c @ ''='' @ val_text c @ ''\<newline>'') cs) @ const_type c @ '' '' @ const_name c @ ''='' @ val_text c"]) simp
    next
      case (snoc fs p)
      obtain t n where p: "p = (t, n)" by (cases p)
      show ?thesis unfolding assms(2) snoc p
        by (rule exI [of _ "concat (map (\<lambda>c. const_type c @ '' '' @ const_name c @ ''='' @ val_text c @ ''\<newline>'') (constants m)) @ concat (map (\<lambda>(t, n). t @ '' '' @ n @ ''\<newline>'') fs) @ t @ '' '' @ n"]) simp
    qed
    then obtain y where y: "lines = y @ ''\<newline>''" by blast
    have "y \<noteq> []"
    proof
      assume "y = []"
      with y h show False by (simp add: assms(3))
    qed
    moreover from y h \<open>y \<noteq> []\<close> have "\<not> is_space (hd y)" by (simp add: W)
    moreover from y l have "\<not> is_space (last y)" by (simp add: W)
    ultimately have "strip (y @ ''\<newline>'') = y" by (rule strip_line)
    with y show ?thesis by simp
  qed
  have "set pre \<subseteq> W" "set post \<subseteq> W" using dec(2,3) by (auto simp: W)
  moreover have "strip lines = [] \<or> hd (strip lines) \<notin> W \<and> last (strip lines) \<notin> W"
    using dec(4) by (simp add: W)
  ultimately show ?thesis using res dec(1) final by blast
qed

theorem compute_md5_text_builtin_witness:
  "\<forall>f. list_all (\<lambda>(t, n). is_builtin (sample_externals f) (base_msg_type (sample_externals f) t))
          (zip (types samples_msg) (names samples_msg))
     \<and> compute_md5_text (sample_externals f) sample_registry
          (plain_dict (MsgSpec samples_msg) []) samples_msg =
         (Inr ''string NAME=abc\<newline>int32 MAX=10\<newline>float64[] data\<newline>int32 n'',
          sample_registry)"
proof
  fix f
  let ?X = "sample_externals f"
  let ?lines = "''string NAME=abc\<newline>int32 MAX=10\<newline>float64[] data\<newline>int32 n\<newline>''"
  let ?W = "set [CHR 0x09, CHR 0x0A, CHR 0x0B, CHR 0x0C, CHR 0x0D, CHR '' '']"
  have b: "list_all (\<lambda>(t, n). is_builtin ?X (base_msg_type ?X t))
          (zip (types samples_msg) (names samples_msg))"
    by (simp add: sample_externals_def samples_msg_def)
  have l: "?lines =
           concat (map (\<lambda>c. const_type c @ '' '' @ const_name c @ ''='' @ val_text c @ ''\<newline>'')
                       (constants samples_msg)) @
           concat (map (\<lambda>(t, n). t @ '' '' @ n @ ''\<newline>'')
                       (zip (types samples_msg) (names samples_msg)))"
    by (simp add: samples_msg_def)
  from compute_md5_text_builtin
    [OF b l refl, of sample_registry "plain_dict (MsgSpec samples_msg) []"]
  obtain out where out: "compute_md5_text ?X sample_registry
          (plain_dict (MsgSpec samples_msg) []) samples_msg = (Inr out, sample_registry)"
    and fin: "?lines \<noteq> [] \<and> hd ?lines \<notin> ?W \<and> last (butlast ?lines) \<notin> ?W \<longrightarrow>
              out @ ''\<newline>'' = ?lines"
    by blast
  have "?lines \<noteq> [] \<and> hd ?lines \<notin> ?W \<and> last (butlast ?lines) \<notin> ?W" by simp
  with fin have "out @ ''\<newline>'' = ?lines" by blast
  then have "butlast (out @ ''\<newline>'') = butlast ?lines" by (rule arg_cong)
  then have "out = ''string NAME=abc\<newline>int32 MAX=10\<newline>float64[] data\<newline>int32 n''"
    by (simp add: butlast_append)
  with out b show "list_all (\<lambda>(t, n). is_builtin ?X (base_msg_type ?X t))
          (zip (types samples_msg) (names samples_msg))
     \<and> compute_md5_text ?X sample_registry
          (plain_dict (MsgSpec samples_msg) []) samples_msg =
         (Inr ''string NAME=abc\<newline>int32 MAX=10\<newline>float64[] data\<newline>int32 n'',
          sample_registry)"
    by simp
qed

text \<open>
  C1, as the specification states it, has only the final line feed removed. The
  message with the constant \<open>string A=x \<close>, whose value ends in a space, has the one
  line \<open>string A=x \<close>; the code returns \<open>string A=x\<close>, without the space, whatever the
  collaborators are.
\<close>

theorem trailing_space_counterexample:
  "\<forall>X r d. compute_md5_text X r d trailing_msg = (Inr ''string A=x'', r)
     \<and> ''string A=x'' \<noteq> butlast (''string A=x \<newline>'')"
  by (simp add: compute_md5_text.simps trailing_msg_def constant_line_def strip_def
      is_space_def)

subsection \<open>Fields of another type\<close>

lemma compute_md5_text_nonbuiltin_raises:
  assumes "\<not> list_all (\<lambda>(t, n). is_builtin X (base_msg_type X t)) (zip (types m) (names m))"
  shows "\<exists>e r1. compute_md5_text X r d m = (Inl e, r1)"
proof (cases "compute_md5_text X r d m")
  case (Pair res r1)
  show ?thesis
  proof (cases res)
    case (Inl e)
    with Pair show ?thesis by blast
  next
    case (Inr out)
    with Pair have "fst (compute_md5_text X r d m) = Inr out" by simp
    from compute_md5_text_frame [OF this] obtain buff where
      "md5_text_fields X r d (zip (types m) (names m))
         (foldl (\<lambda>b c. b @ constant_line c) [] (constants m)) = (Inr buff, r)"
      by (auto simp: compute_md5_text.simps Let_def split: prod.splits sum.splits)
    from md5_text_fields_result [OF this] assms show ?thesis by simp
  qed
qed

text \<open>
  C2. The scenario of the specification: \<open>Polygon\<close> has the field \<open>points\<close> of type
  \<open>Point[]\<close>, and \<open>Point\<close> is registered as \<open>pkg/Point\<close>. The canonical text should be
  the fingerprint of \<open>Point\<close> followed by the field name. The code finds the schema of
  \<open>Point\<close> and then fails in \<open>get_dependencies\<close>, so no text is produced.
\<close>

theorem compute_md5_text_polygon_raises:
  "\<forall>f. compute_md5_text (sample_externals f) sample_registry polygon_dict Polygon =
     (Inl (TypeError ''_add_msgs_depends() takes exactly 4 arguments (3 given)''),
      sample_registry)"
  by (simp add: compute_md5_text.simps Let_def get_dependencies_def sample_defs polygon_dict_def)

section \<open>Dependency lists\<close>

text \<open>
  C5. The scenario of the specification: resolving \<open>Polygon\<close> in package \<open>pkg\<close> should
  give \<open>deps\<close> and \<open>uniquedeps\<close> equal to the one entry \<open>pkg/Point\<close>. The code raises
  \<open>TypeError\<close> instead and returns no dictionary.
\<close>

theorem get_dependencies_polygon_raises:
  "\<forall>f. get_dependencies (sample_externals f) sample_registry (MsgSpec Polygon) ''pkg'' True =
     (Inl (TypeError ''_add_msgs_depends() takes exactly 4 arguments (3 given)''),
      sample_registry)"
  by (simp add: get_dependencies_def Let_def sample_externals_def)

text \<open>
  The loop that builds \<open>uniquedeps\<close>, taken alone, does what its comment says for any
  list \<open>deps\<close>: the result has the elements of \<open>deps\<close>, each once, in the order of their
  first occurrence.
\<close>

lemma unique_loop_set: "set (unique_loop ds u) = set u \<union> set ds"
  by (induction ds arbitrary: u) auto

lemma unique_loop_distinct: "distinct u \<Longrightarrow> distinct (unique_loop ds u)"
  by (induction ds arbitrary: u) auto

lemma unique_loop_first_occurrences:
  "unique_loop ds u = u @ rev (remdups (rev (filter (\<lambda>d. d \<notin> set u) ds)))"
proof (induction ds arbitrary: u)
  case Nil
  then show ?case by simp
next
  case (Cons d ds)
  show ?case
  proof (cases "d \<in> set u")
    case True
    then show ?thesis using Cons.IH [of u] by simp
  next
    case False
    have "filter (\<lambda>x. x \<notin> set (u @ [d])) ds =
          filter (\<lambda>x. x \<noteq> d) (filter (\<lambda>x. x \<notin> set u) ds)"
      by (induction ds) auto
    moreover have "rev (remdups (rev (d # ys))) =
          d # rev (remdups (rev (filter (\<lambda>x. x \<noteq> d) ys)))" for ys :: "string list"
      by (induction ys rule: rev_induct) auto
    ultimately show ?thesis using False Cons.IH [of "u @ [d]"] by simp
  qed
qed

section \<open>The fingerprint of a service\<close>

text \<open>
  C3, as the code has it. For a service whose request and response have the canonical
  texts \<open>a\<close> and \<open>b\<close>, \<open>_compute_hash\<close> returns the hex digest of the one hash instance it
  was given, updated with \<open>a\<close> and then with \<open>b\<close>; \<open>compute_md5\<close> therefore returns the
  MD5 digest of \<open>a\<close> followed by \<open>b\<close>. For the service with the two texts swapped it
  returns the digest of \<open>b\<close> followed by \<open>a\<close>, and the two fingerprints differ exactly
  when MD5 tells the two concatenations apart.
\<close>

theorem compute_hash_service:
  assumes "dict_spec d = SrvSpec s"
    and "fst (compute_md5_text X r d (request s)) = Inr a"
    and "fst (compute_md5_text X r d (response s)) = Inr b"
  shows "compute_hash X r d h = (Inr (hexdigest (hash_update (hash_update h a) b)), r)
       \<and> compute_md5 X r d = (Inr (md5 X (a @ b)), r)
       \<and> (\<forall>d' s'. dict_spec d' = SrvSpec s'
             \<and> fst (compute_md5_text X r d' (request s')) = Inr b
             \<and> fst (compute_md5_text X r d' (response s')) = Inr a \<longrightarrow>
             compute_md5 X r d' = (Inr (md5 X (b @ a)), r)
             \<and> (compute_md5 X r d \<noteq> compute_md5 X r d') = (md5 X (a @ b) \<noteq> md5 X (b @ a)))"
proof -
  have hash: "compute_hash X r e h' = (Inr (hexdigest (hash_update (hash_update h' p) q)), r)"
    if "dict_spec e = SrvSpec v" "fst (compute_md5_text X r e (request v)) = Inr p"
      "fst (compute_md5_text X r e (response v)) = Inr q" for e v p q h'
    using that(1) compute_md5_text_frame [OF that(2)] compute_md5_text_frame [OF that(3)]
    by (simp add: compute_hash.simps)
  have fingerprint: "compute_md5 X r e = (Inr (md5 X (p @ q)), r)"
    if "dict_spec e = SrvSpec v" "fst (compute_md5_text X r e (request v)) = Inr p"
      "fst (compute_md5_text X r e (response v)) = Inr q" for e v p q
    using hash [OF that, of "hashlib_md5 X"]
    by (simp add: compute_md5.simps hashlib_md5_def hash_update_def hexdigest_def)
  show ?thesis using hash [OF assms] fingerprint [OF assms] fingerprint by auto
qed

theorem compute_hash_service_witness:
  "\<forall>f. dict_spec (srv_dict int32_a int32_b) =
         SrvSpec \<lparr>request = int32_a, response = int32_b,
                  srv_text = ''int32 a\<newline>---\<newline>int32 b\<newline>''\<rparr>
     \<and> fst (compute_md5_text (sample_externals f) sample_registry
              (srv_dict int32_a int32_b) int32_a) = Inr ''int32 a''
     \<and> fst (compute_md5_text (sample_externals f) sample_registry
              (srv_dict int32_a int32_b) int32_b) = Inr ''int32 b''
     \<and> compute_md5 (sample_externals f) sample_registry (srv_dict int32_a int32_b) =
         (Inr (f ''int32 aint32 b''), sample_registry)
     \<and> compute_md5 (sample_externals f) sample_registry (srv_dict int32_b int32_a) =
         (Inr (f ''int32 bint32 a''), sample_registry)"
proof
  fix f
  let ?X = "sample_externals f"
  let ?s = "\<lparr>request = int32_a, response = int32_b,
             srv_text = ''int32 a\<newline>---\<newline>int32 b\<newline>''\<rparr>"
  let ?t = "\<lparr>request = int32_b, response = int32_a,
             srv_text = ''int32 b\<newline>---\<newline>int32 a\<newline>''\<rparr>"
  have d: "dict_spec (srv_dict int32_a int32_b) = SrvSpec ?s"
    by (simp add: srv_dict_def plain_dict_def int32_a_def int32_b_def)
  have d2: "dict_spec (srv_dict int32_b int32_a) = SrvSpec ?t"
    by (simp add: srv_dict_def plain_dict_def int32_a_def int32_b_def)
  have texts: "fst (compute_md5_text ?X sample_registry e int32_a) = Inr ''int32 a''"
    "fst (compute_md5_text ?X sample_registry e int32_b) = Inr ''int32 b''" for e
    by (simp_all add: compute_md5_text.simps int32_a_def int32_b_def sample_externals_def
        field_line_def strip_def is_space_def)
  have a: "fst (compute_md5_text ?X sample_registry (srv_dict int32_a int32_b) (request ?s)) =
             Inr ''int32 a''" using texts by simp
  have b: "fst (compute_md5_text ?X sample_registry (srv_dict int32_a int32_b) (response ?s)) =
             Inr ''int32 b''" using texts by simp
  note inst = compute_hash_service [OF d a b, of "hashlib_md5 ?X"]
  have m: "md5 ?X = f" by (simp add: sample_externals_def)
  have one: "compute_md5 ?X sample_registry (srv_dict int32_a int32_b) =
         (Inr (f ''int32 aint32 b''), sample_registry)"
    using inst m by simp
  have two: "compute_md5 ?X sample_registry (srv_dict int32_b int32_a) =
         (Inr (f ''int32 bint32 a''), sample_registry)"
    using inst d2 texts m by simp
  show "dict_spec (srv_dict int32_a int32_b) = SrvSpec ?s
     \<and> fst (compute_md5_text ?X sample_registry (srv_dict int32_a int32_b) int32_a) = Inr ''int32 a''
     \<and> fst (compute_md5_text ?X sample_registry (srv_dict int32_a int32_b) int32_b) = Inr ''int32 b''
     \<and> compute_md5 ?X sample_registry (srv_dict int32_a int32_b) =
         (Inr (f ''int32 aint32 b''), sample_registry)
     \<and> compute_md5 ?X sample_registry (srv_dict int32_b int32_a) =
         (Inr (f ''int32 bint32 a''), sample_registry)"
    using d texts one two by simp
qed

text \<open>
  C3, as the specification states it, asks that two services with distinct, swapped
  canonical texts have different fingerprints. The request \<open>string A=x\<close> and the
  response \<open>string A=xstring A=x\<close> (a string constant whose value is \<open>xstring A=x\<close>)
  have distinct canonical texts, and the service and its swap have the same
  fingerprint whatever the collaborators and the digest function are, since both
  feed the digest the same bytes.
\<close>

theorem swapped_services_counterexample:
  "\<forall>X r. fst (compute_md5_text X r (srv_dict const_x const_xx) const_x) = Inr ''string A=x''
     \<and> fst (compute_md5_text X r (srv_dict const_x const_xx) const_xx) =
         Inr ''string A=xstring A=x''
     \<and> ''string A=x'' \<noteq> ''string A=xstring A=x''
     \<and> compute_md5 X r (srv_dict const_x const_xx) = compute_md5 X r (srv_dict const_xx const_x)"
  by (simp add: compute_md5.simps compute_hash.simps compute_md5_text.simps srv_dict_def
      plain_dict_def const_x_def const_xx_def constant_line_def strip_def is_space_def
      hashlib_md5_def hash_update_def hexdigest_def)

section \<open>Repeated computation\<close>

text \<open>
  C4. When the current fingerprint of a dictionary is a string, computing it has left
  the registry as it was, so computing it again returns the same string. The legacy
  fingerprint never changes the registry, and it is the same in any two registry states
  that hold the same schemas for the entries of \<open>uniquedeps\<close>: both fingerprints are
  functions of the dictionary and of the registry contents they read.
\<close>

theorem fingerprints_repeatable:
  "(compute_md5 X r d = (Inr s, r1) \<longrightarrow> r1 = r \<and> compute_md5 X r1 d = (Inr s, r1))
   \<and> ((\<forall>u \<in> set (dict_uniquedeps d). get_registered X r' u None = get_registered X r u None)
        \<longrightarrow> compute_md5_v1 X r' d = compute_md5_v1 X r d)"
proof -
  have loop: "hash_v1_loop X r' us h = hash_v1_loop X r us h"
    if "\<forall>u \<in> set us. get_registered X r' u None = get_registered X r u None" for us h
    using that by (induction us arbitrary: h) (simp_all split: sum.splits)
  have "compute_md5 X r d = (Inr s, r1) \<Longrightarrow> r1 = r"
    by (simp add: compute_md5.simps compute_hash_frame)
  then show ?thesis
    by (auto simp: compute_md5_v1_def compute_hash_v1_def loop split: sum.splits)
qed

theorem fingerprints_repeatable_witness:
  "\<forall>f. compute_md5 (sample_externals f) sample_registry int32_a_dict =
         (Inr (f ''int32 a''), sample_registry)
     \<and> get_registered (sample_externals f) ((''pkg/Int'', int32_a) # sample_registry)
          ''pkg/Point'' None =
        get_registered (sample_externals f) sample_registry ''pkg/Point'' None
     \<and> compute_md5_v1 (sample_externals f) ((''pkg/Int'', int32_a) # sample_registry) int32_a_dict =
        compute_md5_v1 (sample_externals f) sample_registry int32_a_dict
     \<and> compute_md5_v1 (sample_externals f) sample_registry int32_a_dict =
        Inr (f ''int32 a\<newline>float64 x\<newline>float64 y\<newline>'')"
proof
  fix f
  let ?X = "sample_externals f"
  let ?r' = "(''pkg/Int'', int32_a) # sample_registry"
  have one: "compute_md5 ?X sample_registry int32_a_dict =
         (Inr (f ''int32 a''), sample_registry)"
    by (simp add: compute_md5.simps compute_hash.simps compute_md5_text.simps int32_a_dict_def
        int32_a_def sample_externals_def field_line_def strip_def is_space_def hashlib_md5_def
        hash_update_def hexdigest_def)
  have same: "get_registered ?X ?r' ''pkg/Point'' None =
        get_registered ?X sample_registry ''pkg/Point'' None"
    by (simp add: sample_externals_def sample_get_registered_def sample_registry_def)
  have v1: "compute_md5_v1 ?X sample_registry int32_a_dict =
        Inr (f ''int32 a\<newline>float64 x\<newline>float64 y\<newline>'')"
    by (simp add: compute_md5_v1_def compute_hash_v1_def spec_text_def int32_a_dict_def
        int32_a_def Point_def sample_externals_def sample_get_registered_def
        sample_registry_def hashlib_md5_def hash_update_def hexdigest_def)
  from fingerprints_repeatable
    [of ?X sample_registry int32_a_dict "f ''int32 a''" sample_registry ?r']
  show "compute_md5 ?X sample_registry int32_a_dict =
         (Inr (f ''int32 a''), sample_registry)
     \<and> get_registered ?X ?r' ''pkg/Point'' None =
        get_registered ?X sample_registry ''pkg/Point'' None
     \<and> compute_md5_v1 ?X ?r' int32_a_dict = compute_md5_v1 ?X sample_registry int32_a_dict
     \<and> compute_md5_v1 ?X sample_registry int32_a_dict =
        Inr (f ''int32 a\<newline>float64 x\<newline>float64 y\<newline>'')"
    using one same v1 by (simp add: int32_a_dict_def)
qed

end
